theory Spec2Isabelle
  imports Main
begin

section \<open>The User model of the moderator backend (models/user.ts)\<close>

subsection \<open>JavaScript values\<close>

text \<open>
  The validator and \<open>isUser\<close> run on untyped run-time values: the parameter of
  \<open>isUser\<close> is declared \<open>any\<close>, and the attribute types of \<open>IUserAttributes\<close> are
  erased before the validator reads \<open>this.group\<close> and \<open>this.email\<close>.

  An error that a piece of JavaScript throws is a value of \<open>js_error\<close>; a computation
  that may throw returns \<open>js_error + 'a\<close>, with \<open>Inl\<close> for the throw.
\<close>

datatype js_error =
    Error string
  | TypeError string
  | UniqueConstraintError

text \<open>
  Numbers are kept as the integers and \<open>NaN\<close>: the code only asks a number whether
  it is truthy and whether it is strictly equal to a string. An object (\<open>JObj\<close>) or a
  function (\<open>JFun\<close>) is the list of its properties as a read sees them, own and
  inherited. A property is a data property holding a value, or an accessor property,
  given by what its getter does when it is read: return a value (also \<open>Holds\<close>) or
  throw (\<open>Raises\<close>).
\<close>

datatype jsval =
    JUndefined
  | JNull
  | JBool bool
  | JNum int
  | JNaN
  | JStr string
  | JObj "(string \<times> slot) list"
  | JFun "(string \<times> slot) list"
and slot =
    Holds jsval
  | Raises js_error

text \<open>ToBoolean: what \<open>&&\<close>, \<open>!!\<close> and \<open>if\<close> look at.\<close>

fun truthy :: "jsval \<Rightarrow> bool" where
  "truthy JUndefined = False"
| "truthy JNull = False"
| "truthy (JBool b) = b"
| "truthy (JNum n) = (n \<noteq> 0)"
| "truthy JNaN = False"
| "truthy (JStr s) = (s \<noteq> [])"
| "truthy (JObj ps) = True"
| "truthy (JFun ps) = True"

fun read_slot :: "slot option \<Rightarrow> js_error + jsval" where
  "read_slot None = Inr JUndefined"
| "read_slot (Some (Holds v)) = Inr v"
| "read_slot (Some (Raises e)) = Inl e"

text \<open>
  The property read \<open>v.k\<close>. On \<open>null\<close> and \<open>undefined\<close> it throws a TypeError. A
  boolean, a number or a string is read through its wrapper prototype, which has
  neither a \<open>get\<close> nor a \<open>group\<close> property (the two names this file reads), so the
  read gives \<open>undefined\<close>.
\<close>

fun get_prop :: "jsval \<Rightarrow> string \<Rightarrow> js_error + jsval" where
  "get_prop JUndefined k = Inl (TypeError (''Cannot read property '' @ k @ '' of undefined''))"
| "get_prop JNull k = Inl (TypeError (''Cannot read property '' @ k @ '' of null''))"
| "get_prop (JObj ps) k = read_slot (map_of ps k)"
| "get_prop (JFun ps) k = read_slot (map_of ps k)"
| "get_prop (JBool b) k = Inr JUndefined"
| "get_prop (JNum n) k = Inr JUndefined"
| "get_prop JNaN k = Inr JUndefined"
| "get_prop (JStr s) k = Inr JUndefined"

subsection \<open>Constants and the attribute record\<close>

definition USER_GROUP_GENERAL :: string where "USER_GROUP_GENERAL = ''general''"
definition USER_GROUP_ADMIN :: string where "USER_GROUP_ADMIN = ''admin''"
definition USER_GROUP_SERVICE :: string where "USER_GROUP_SERVICE = ''service''"
definition USER_GROUP_YOUTUBE :: string where "USER_GROUP_YOUTUBE = ''youtube''"
definition USER_GROUP_MODERATOR :: string where "USER_GROUP_MODERATOR = ''moderator''"

definition USER_GROUPS :: "string list" where
  "USER_GROUPS = [USER_GROUP_GENERAL, USER_GROUP_ADMIN, USER_GROUP_SERVICE,
                  USER_GROUP_YOUTUBE, USER_GROUP_MODERATOR]"

text \<open>
  A candidate record as the validator sees it: the in-memory values of the seven
  attributes of the \<open>define\<close> call. \<open>ident\<close> is the attribute \<open>id\<close>; a missing
  attribute is \<open>JUndefined\<close>.
\<close>

record user =
  ident :: jsval
  group :: jsval
  name :: jsval
  email :: jsval
  isActive :: jsval
  avatarURL :: jsval
  extra :: jsval

subsection \<open>The validation rule\<close>

text \<open>
  Modelled from the spec: Joi, the validation library, is not among the sources. The
  specification has the email validated against a required address grammar with no
  implicit type coercion, failing when it is missing or malformed. The schema
  \<open>Joi.string().email().required()\<close>, validated with \<open>convert: false\<close>, reports
  \<open>any.required\<close> on \<open>undefined\<close>, \<open>string.base\<close> on every other value that is not a
  primitive string, \<open>any.empty\<close> on the empty string and \<open>string.email\<close> on a string
  outside the address grammar. The grammar itself is a parameter, \<open>isEmail\<close>. The
  result is the \<open>error\<close> field of Joi's answer: \<open>None\<close> is \<open>null\<close>.
\<close>

datatype joi_error = any_required | string_base | any_empty | string_email

type_synonym email_grammar = "string \<Rightarrow> bool"

fun Joi_validate_email :: "email_grammar \<Rightarrow> jsval \<Rightarrow> joi_error option" where
  "Joi_validate_email isEmail JUndefined = Some any_required"
| "Joi_validate_email isEmail (JStr s) =
     (if s = [] then Some any_empty
      else if isEmail s then None
      else Some string_email)"
| "Joi_validate_email isEmail v = Some string_base"

text \<open>
  \<open>requireEmailForHumans\<close>, a method on the candidate record \<open>this\<close>. It returns its
  outcome (\<open>Inl\<close> the thrown error) together with \<open>this\<close> as the call leaves it.
\<close>

definition requireEmailForHumans :: "email_grammar \<Rightarrow> user \<Rightarrow> (js_error + unit) \<times> user" where
  "requireEmailForHumans isEmail this =
     (let grp = group this in
      if grp = JStr USER_GROUP_GENERAL \<or> grp = JStr USER_GROUP_ADMIN then
        (let validEmail = Joi_validate_email isEmail (email this) in
         if validEmail \<noteq> None
         then (Inl (Error ''Email address required for human users''), this)
         else (Inr (), this))
      else (Inr (), this))"

subsection \<open>The shape predicate\<close>

text \<open>
  \<open>instance && instance.get && !!instance.group\<close>: \<open>a && b\<close> is \<open>a\<close> when \<open>a\<close> is
  falsy and \<open>b\<close> otherwise, and a property read that throws ends the call.
\<close>

definition isUser :: "jsval \<Rightarrow> js_error + jsval" where
  "isUser instance =
     (if \<not> truthy instance then Inr instance
      else (case get_prop instance ''get'' of
        Inl e \<Rightarrow> Inl e
      | Inr g \<Rightarrow>
          (if \<not> truthy g then Inr g
           else (case get_prop instance ''group'' of
             Inl e \<Rightarrow> Inl e
           | Inr grp \<Rightarrow> Inr (JBool (truthy grp))))))"

subsection \<open>The options of the \<open>define\<close> call\<close>

text \<open>The \<open>indexes\<close> option. An index without a \<open>unique\<close> key is not unique.\<close>

record index_decl =
  index_name :: "string option"
  index_fields :: "string list"
  unique :: bool

definition indexes :: "index_decl list" where
  "indexes =
     [\<lparr>index_name = Some ''users_email'', index_fields = [''email''], unique = False\<rparr>,
      \<lparr>index_name = Some ''group_index'', index_fields = [''group''], unique = False\<rparr>,
      \<lparr>index_name = Some ''isActive_index'', index_fields = [''isActive''], unique = False\<rparr>,
      \<lparr>index_name = None, index_fields = [''email'', ''group''], unique = True\<rparr>]"

text \<open>The \<open>validate\<close> option: the model-wide validators, by name.\<close>

definition validate ::
  "(string \<times> (email_grammar \<Rightarrow> user \<Rightarrow> (js_error + unit) \<times> user)) list" where
  "validate = [(''requireEmailForHumans'', requireEmailForHumans)]"

text \<open>
  The \<open>hooks\<close> option: lifecycle event name and the callback registered for it. All
  six entries name the one imported callback.
\<close>

datatype callback = updateHappened

definition hooks :: "(string \<times> callback) list" where
  "hooks =
     [(''afterCreate'', updateHappened),
      (''afterDestroy'', updateHappened),
      (''afterUpdate'', updateHappened),
      (''afterBulkCreate'', updateHappened),
      (''afterBulkUpdate'', updateHappened),
      (''afterBulkDestroy'', updateHappened)]"

text \<open>The attribute of a record named by a column name, as an index reads it.\<close>

definition getDataValue :: "user \<Rightarrow> string \<Rightarrow> jsval" where
  "getDataValue u k =
     (if k = ''id'' then ident u
      else if k = ''group'' then group u
      else if k = ''name'' then name u
      else if k = ''email'' then email u
      else if k = ''isActive'' then isActive u
      else if k = ''avatarURL'' then avatarURL u
      else if k = ''extra'' then extra u
      else JUndefined)"

subsection \<open>The storage layer\<close>

text \<open>
  Modelled from the spec: the storage layer behind \<open>sequelize.define\<close> (the module
  \<open>../sequelize\<close>) and the notifier \<open>updateHappened\<close> (the module \<open>./last_update\<close>)
  are not among the sources. The definitions of this subsection follow the
  specification's sections 4.1, 5, 6 and 7: the validators run on the candidate
  records before a write is committed and a failure aborts the whole write; a write
  whose result would break a declared uniqueness constraint is rejected; after a
  successful create, update, destroy or bulk variant the callbacks registered for
  that event are invoked; the notifier takes no argument and is opaque. What they are
  driven by (\<open>indexes\<close>, \<open>validate\<close>, \<open>hooks\<close>) is the source's.

  The store keeps a journal: \<open>Mutated\<close> when a write has been applied, \<open>Notified\<close>
  for each call of the notifier.
\<close>

datatype event = Mutated | Notified

text \<open>
  Modelled from the spec: the table of persisted rows, the counter of the
  system-generated \<open>id\<close>, and the journal.
\<close>

record store =
  rows :: "user list"
  autoIncrement :: int
  journal :: "event list"

definition empty_store :: store where
  "empty_store = \<lparr>rows = [], autoIncrement = 1, journal = []\<rparr>"

text \<open>
  Modelled from the spec: the six entry points of the storage layer. An update and a
  destroy name the row by its \<open>id\<close>; a bulk update and a bulk destroy select rows by a
  predicate.
\<close>

datatype mutation =
    Create user
  | Update jsval user
  | Destroy jsval
  | BulkCreate "user list"
  | BulkUpdate "user \<Rightarrow> bool" "user \<Rightarrow> user"
  | BulkDestroy "user \<Rightarrow> bool"

text \<open>
  Modelled from the spec: the notifier is a no-argument callable; all that is kept of
  a call is that it happened.
\<close>

fun invoke :: "callback \<Rightarrow> store \<Rightarrow> store" where
  "invoke updateHappened st = st\<lparr>journal := journal st @ [Notified]\<rparr>"

text \<open>
  Modelled from the spec: invoking the callbacks that the \<open>hooks\<close> option registers
  for an event, in the order of the option.
\<close>

definition runHooks :: "string \<Rightarrow> store \<Rightarrow> store" where
  "runHooks hookName st =
     fold (\<lambda>(n, h) s. if n = hookName then invoke h s else s) hooks st"

text \<open>Modelled from the spec: the event that follows each kind of mutation.\<close>

fun afterHook :: "mutation \<Rightarrow> string" where
  "afterHook (Create u) = ''afterCreate''"
| "afterHook (Update i u) = ''afterUpdate''"
| "afterHook (Destroy i) = ''afterDestroy''"
| "afterHook (BulkCreate us) = ''afterBulkCreate''"
| "afterHook (BulkUpdate p f) = ''afterBulkUpdate''"
| "afterHook (BulkDestroy p) = ''afterBulkDestroy''"

text \<open>
  Modelled from the spec: the validation phase. Every validator of the \<open>validate\<close>
  option runs on a candidate record, and every candidate of the write is validated;
  the first throw ends the phase.
\<close>

fun runRules ::
  "email_grammar \<Rightarrow> (string \<times> (email_grammar \<Rightarrow> user \<Rightarrow> (js_error + unit) \<times> user)) list
     \<Rightarrow> user \<Rightarrow> js_error + unit" where
  "runRules isEmail [] u = Inr ()"
| "runRules isEmail ((n, rule) # rs) u =
     (case fst (rule isEmail u) of
        Inl e \<Rightarrow> Inl e
      | Inr _ \<Rightarrow> runRules isEmail rs u)"

fun runValidators :: "email_grammar \<Rightarrow> user list \<Rightarrow> js_error + unit" where
  "runValidators isEmail [] = Inr ()"
| "runValidators isEmail (u # us) =
     (case runRules isEmail validate u of
        Inl e \<Rightarrow> Inl e
      | Inr _ \<Rightarrow> runValidators isEmail us)"

text \<open>Modelled from the spec: the candidate records a mutation is about to write.\<close>

fun candidates :: "mutation \<Rightarrow> store \<Rightarrow> user list" where
  "candidates (Create u) st = [u]"
| "candidates (Update i u) st = [u]"
| "candidates (Destroy i) st = []"
| "candidates (BulkCreate us) st = us"
| "candidates (BulkUpdate p f) st = map f (filter p (rows st))"
| "candidates (BulkDestroy p) st = []"

text \<open>
  Modelled from the spec: the write itself. An inserted row gets the next
  system-generated \<open>id\<close>; an updated row keeps its own.
\<close>

definition insert_row :: "user \<Rightarrow> store \<Rightarrow> store" where
  "insert_row u st =
     st\<lparr>rows := rows st @ [u\<lparr>ident := JNum (autoIncrement st)\<rparr>],
        autoIncrement := autoIncrement st + 1\<rparr>"

fun perform :: "mutation \<Rightarrow> store \<Rightarrow> store" where
  "perform (Create u) st = insert_row u st"
| "perform (Update i u) st =
     st\<lparr>rows := map (\<lambda>r. if ident r = i then u\<lparr>ident := i\<rparr> else r) (rows st)\<rparr>"
| "perform (Destroy i) st = st\<lparr>rows := filter (\<lambda>r. ident r \<noteq> i) (rows st)\<rparr>"
| "perform (BulkCreate us) st = fold insert_row us st"
| "perform (BulkUpdate p f) st =
     st\<lparr>rows := map (\<lambda>r. if p r then (f r)\<lparr>ident := ident r\<rparr> else r) (rows st)\<rparr>"
| "perform (BulkDestroy p) st = st\<lparr>rows := filter (\<lambda>r. \<not> p r) (rows st)\<rparr>"

text \<open>
  Modelled from the spec: enforcement of the declared uniqueness constraints. A table
  satisfies an index declared unique when no two rows agree on all its fields.
\<close>

definition index_key :: "index_decl \<Rightarrow> user \<Rightarrow> jsval list" where
  "index_key ix r = map (getDataValue r) (index_fields ix)"

definition constraints_ok :: "user list \<Rightarrow> bool" where
  "constraints_ok rs =
     list_all (\<lambda>ix. distinct (map (index_key ix) rs)) (filter unique indexes)"

text \<open>
  Modelled from the spec: one mutation. The validation phase comes first and its
  failure rejects the whole write; then the write is applied unless its result breaks
  a uniqueness constraint; after a write that is applied, the callbacks of its
  after-event run.
\<close>

definition mutate :: "email_grammar \<Rightarrow> mutation \<Rightarrow> store \<Rightarrow> (js_error + unit) \<times> store" where
  "mutate isEmail m st =
     (case runValidators isEmail (candidates m st) of
        Inl e \<Rightarrow> (Inl e, st)
      | Inr _ \<Rightarrow>
          (let st' = perform m st in
           if constraints_ok (rows st')
           then (Inr (), runHooks (afterHook m) (st'\<lparr>journal := journal st' @ [Mutated]\<rparr>))
           else (Inl UniqueConstraintError, st)))"

text \<open>Modelled from the spec: a sequence of mutations, each on the store the last one left.\<close>

definition run :: "email_grammar \<Rightarrow> mutation list \<Rightarrow> store \<Rightarrow> store" where
  "run isEmail ms st = fold (\<lambda>m s. snd (mutate isEmail m s)) ms st"

subsection \<open>Sample inputs\<close>

text \<open>
  A small address grammar and the records of the specification's examples
  (\<open>{ group, email, name, isActive: true }\<close>), used to run the theorems below on
  concrete inputs.
\<close>

definition sample_isEmail :: email_grammar where
  "sample_isEmail s = (CHR ''@'' \<in> set s)"

definition new_user :: "string \<Rightarrow> jsval \<Rightarrow> string \<Rightarrow> user" where
  "new_user g e n =
     \<lparr>ident = JUndefined, group = JStr g, name = JStr n, email = e,
      isActive = JBool True, avatarURL = JUndefined, extra = JUndefined\<rparr>"

section \<open>Properties\<close>

subsection \<open>Auxiliary facts\<close>

lemma Joi_error_iff:
  "Joi_validate_email isEmail v = None \<longleftrightarrow> (\<exists>s. v = JStr s \<and> s \<noteq> [] \<and> isEmail s)"
  by (cases v) auto

lemma runRules_validate: "runRules isEmail validate u = fst (requireEmailForHumans isEmail u)"
  by (simp add: validate_def split: sum.splits)

lemma requireEmailForHumans_snd: "snd (requireEmailForHumans isEmail u) = u"
  by (simp add: requireEmailForHumans_def Let_def)

lemma requireEmailForHumans_fst:
  "fst (requireEmailForHumans isEmail u) =
     (if (group u = JStr ''general'' \<or> group u = JStr ''admin'')
          \<and> Joi_validate_email isEmail (email u) \<noteq> None
      then Inl (Error ''Email address required for human users'') else Inr ())"
  by (simp add: requireEmailForHumans_def Let_def USER_GROUP_GENERAL_def USER_GROUP_ADMIN_def)

lemma runValidators_member:
  "u \<in> set us \<Longrightarrow> fst (requireEmailForHumans isEmail u) = Inl e \<Longrightarrow>
   runValidators isEmail us = Inl (Error ''Email address required for human users'')"
  by (induction us) (auto simp: runRules_validate requireEmailForHumans_fst split: sum.splits if_splits)

lemma fold_hooks_rows:
  "rows (fold (\<lambda>(n, h) s. if n = k then invoke h s else s) hs st) = rows st"
proof (induction hs arbitrary: st)
  case Nil
  show ?case by simp
next
  case (Cons a hs)
  obtain n h where a: "a = (n, h)" by (cases a)
  show ?case by (cases h) (simp add: a Cons.IH)
qed

lemma rows_runHooks: "rows (runHooks k st) = rows st"
  by (simp add: runHooks_def fold_hooks_rows)

lemma journal_runHooks: "journal (runHooks (afterHook m) st) = journal st @ [Notified]"
  by (cases m) (simp_all add: runHooks_def hooks_def)

lemma journal_perform: "journal (perform m st) = journal st"
proof (cases m)
  case (BulkCreate us)
  have "journal (fold insert_row us st) = journal st"
    by (induction us arbitrary: st) (simp_all add: insert_row_def)
  with BulkCreate show ?thesis by simp
qed (simp_all add: insert_row_def)

lemma constraints_ok_pairs:
  "constraints_ok rs \<longleftrightarrow> distinct (map (\<lambda>r. (email r, group r)) rs)"
proof -
  have "constraints_ok rs \<longleftrightarrow> distinct (map (\<lambda>r. [email r, group r]) rs)"
    by (simp add: constraints_ok_def indexes_def index_key_def[abs_def] getDataValue_def)
  also have "\<dots> \<longleftrightarrow> distinct (map (\<lambda>r. (email r, group r)) rs)"
    by (simp add: distinct_map inj_on_def)
  finally show ?thesis .
qed

lemma constraints_ok_extra:
  "constraints_ok (rs @ [u\<lparr>extra := x, ident := n\<rparr>]) = constraints_ok (rs @ [u\<lparr>ident := n\<rparr>])"
  by (simp add: constraints_ok_pairs)

lemma mutate_outcome:
  "mutate isEmail m st =
     (case runValidators isEmail (candidates m st) of
        Inl e \<Rightarrow> (Inl e, st)
      | Inr _ \<Rightarrow>
          if constraints_ok (rows (perform m st))
          then (Inr (), runHooks (afterHook m) ((perform m st)\<lparr>journal := journal (perform m st) @ [Mutated]\<rparr>))
          else (Inl UniqueConstraintError, st))"
  by (simp add: mutate_def Let_def split: sum.splits)

lemma mutate_Create:
  "mutate isEmail (Create u) st =
     (case fst (requireEmailForHumans isEmail u) of
        Inl e \<Rightarrow> (Inl e, st)
      | Inr _ \<Rightarrow>
          if constraints_ok (rows st @ [u\<lparr>ident := JNum (autoIncrement st)\<rparr>])
          then (Inr (), runHooks ''afterCreate''
                  ((insert_row u st)\<lparr>journal := journal st @ [Mutated]\<rparr>))
          else (Inl UniqueConstraintError, st))"
  by (simp add: mutate_outcome runRules_validate insert_row_def split: sum.splits)

lemma create_on_empty:
  "fst (requireEmailForHumans isEmail u) = Inr () \<Longrightarrow>
   mutate isEmail (Create u) empty_store
     = (Inr (), \<lparr>rows = [u\<lparr>ident := JNum 1\<rparr>], autoIncrement = 2, journal = [Mutated, Notified]\<rparr>)"
  by (simp add: mutate_Create constraints_ok_pairs empty_store_def insert_row_def
      runHooks_def hooks_def)

lemma mutate_constraints:
  "constraints_ok (rows st) \<Longrightarrow> constraints_ok (rows (snd (mutate isEmail m st)))"
  by (simp add: mutate_def Let_def rows_runHooks split: sum.splits)

lemma run_constraints:
  "constraints_ok (rows st) \<Longrightarrow> constraints_ok (rows (run isEmail ms st))"
  unfolding run_def
  by (induction ms arbitrary: st) (simp_all add: mutate_constraints)

lemma run_pairs_distinct:
  "distinct (map (\<lambda>r. (email r, group r)) (rows (run isEmail ms empty_store)))"
proof -
  have "constraints_ok (rows empty_store)"
    by (simp add: empty_store_def constraints_ok_pairs)
  then have "constraints_ok (rows (run isEmail ms empty_store))"
    by (rule run_constraints)
  then show ?thesis
    by (simp only: constraints_ok_pairs)
qed

lemma distinct_nth_neq:
  "distinct (map f xs) \<Longrightarrow> i < j \<Longrightarrow> j < length xs \<Longrightarrow> f (xs ! i) \<noteq> f (xs ! j)"
proof -
  assume d: "distinct (map f xs)" and ij: "i < j" "j < length xs"
  then have "map f xs ! i \<noteq> map f xs ! j"
    by (simp only: nth_eq_iff_index_eq length_map)
  with ij show ?thesis by simp
qed

lemma conflicting_write_rejected:
  "\<not> distinct (map (\<lambda>r. (email r, group r)) (rows (perform m st))) \<Longrightarrow>
   \<exists>e. mutate isEmail m st = (Inl e, st)"
  by (cases "runValidators isEmail (candidates m st)")
     (simp_all add: mutate_outcome constraints_ok_pairs)

lemma conflicting_create:
  assumes "r \<in> set (rows st)" and "email r = email u" and "group r = group u"
  shows "\<not> distinct (map (\<lambda>r. (email r, group r)) (rows (perform (Create u) st)))"
proof -
  from assms have "(email u, group u) = (\<lambda>r. (email r, group r)) r"
    by simp
  with assms(1) have "(email u, group u) \<in> (\<lambda>r. (email r, group r)) ` set (rows st)"
    by (intro image_eqI)
  then show ?thesis
    by (simp add: insert_row_def)
qed

lemma isUser_true_iff:
  "isUser v = Inr (JBool True) \<longleftrightarrow>
     truthy v \<and> (\<exists>g. get_prop v ''get'' = Inr g \<and> truthy g)
       \<and> (\<exists>grp. get_prop v ''group'' = Inr grp \<and> truthy grp)"
  by (auto simp: isUser_def split: sum.splits)

lemma isUser_result: "isUser v = Inr r \<Longrightarrow> r = JBool True \<or> \<not> truthy r"
  by (auto simp: isUser_def split: sum.splits if_splits)

lemma isUser_throws_iff:
  "isUser v = Inl e \<longleftrightarrow>
     truthy v \<and> (get_prop v ''get'' = Inl e
       \<or> (\<exists>g. get_prop v ''get'' = Inr g \<and> truthy g \<and> get_prop v ''group'' = Inl e))"
  by (auto simp: isUser_def split: sum.splits)

lemma get_prop_primitive:
  "\<forall>ps. v \<noteq> JObj ps \<and> v \<noteq> JFun ps \<Longrightarrow> truthy v \<Longrightarrow> get_prop v k = Inr JUndefined"
  by (cases v) auto

subsection \<open>The validation rule\<close>

text \<open>
  C1. A candidate whose group is \<open>general\<close> or \<open>admin\<close> and whose email is missing,
  null or not a valid address is rejected by \<open>requireEmailForHumans\<close> with the error
  \<open>Email address required for human users\<close>; the record is left as it was, and a
  create, an update or a bulk create writing it fails with that error and leaves
  the store unchanged.
\<close>

theorem requireEmailForHumans_rejects:
  assumes human: "group u = JStr USER_GROUP_GENERAL \<or> group u = JStr USER_GROUP_ADMIN"
    and bad: "email u = JUndefined \<or> email u = JNull \<or> (\<forall>s. email u = JStr s \<longrightarrow> \<not> isEmail s)"
  shows "requireEmailForHumans isEmail u
           = (Inl (Error ''Email address required for human users''), u)
       \<and> mutate isEmail (Create u) st
           = (Inl (Error ''Email address required for human users''), st)
       \<and> mutate isEmail (Update i u) st
           = (Inl (Error ''Email address required for human users''), st)
       \<and> (u \<in> set us \<longrightarrow> mutate isEmail (BulkCreate us) st
           = (Inl (Error ''Email address required for human users''), st))"
proof -
  from bad have joi: "Joi_validate_email isEmail (email u) \<noteq> None"
    by (auto simp: Joi_error_iff)
  with human have out: "fst (requireEmailForHumans isEmail u)
      = Inl (Error ''Email address required for human users'')"
    by (simp add: requireEmailForHumans_fst USER_GROUP_GENERAL_def USER_GROUP_ADMIN_def)
  have "requireEmailForHumans isEmail u
      = (Inl (Error ''Email address required for human users''), u)"
    using out requireEmailForHumans_snd [of isEmail u] by (simp add: prod_eq_iff)
  moreover have "mutate isEmail (Create u) st
      = (Inl (Error ''Email address required for human users''), st)"
    by (simp add: mutate_outcome runRules_validate out)
  moreover have "mutate isEmail (Update i u) st
      = (Inl (Error ''Email address required for human users''), st)"
    by (simp add: mutate_outcome runRules_validate out)
  moreover have "u \<in> set us \<longrightarrow> mutate isEmail (BulkCreate us) st
      = (Inl (Error ''Email address required for human users''), st)"
    using runValidators_member [OF _ out] by (simp add: mutate_outcome)
  ultimately show ?thesis by blast
qed

theorem requireEmailForHumans_rejects_witness:
  "group (new_user ''general'' JNull ''Bob'') = JStr USER_GROUP_GENERAL
   \<and> email (new_user ''general'' JNull ''Bob'') = JNull
   \<and> requireEmailForHumans sample_isEmail (new_user ''general'' JNull ''Bob'')
        = (Inl (Error ''Email address required for human users''), new_user ''general'' JNull ''Bob'')
   \<and> mutate sample_isEmail (Create (new_user ''general'' JNull ''Bob'')) empty_store
        = (Inl (Error ''Email address required for human users''), empty_store)"
  using requireEmailForHumans_rejects
    [of "new_user ''general'' JNull ''Bob''" sample_isEmail empty_store]
  by (simp add: new_user_def USER_GROUP_GENERAL_def)

text \<open>
  C2. For a candidate whose group is neither \<open>general\<close> nor \<open>admin\<close> the rule is a
  no-op whatever the email is: it throws nothing, so the validators pass and a create
  cannot fail with a validation error.
\<close>

theorem requireEmailForHumans_noop:
  assumes "group u \<noteq> JStr USER_GROUP_GENERAL" and "group u \<noteq> JStr USER_GROUP_ADMIN"
  shows "requireEmailForHumans isEmail u = (Inr (), u)
       \<and> runValidators isEmail [u] = Inr ()
       \<and> (\<forall>msg. fst (mutate isEmail (Create u) st) \<noteq> Inl (Error msg))"
proof -
  have r: "requireEmailForHumans isEmail u = (Inr (), u)"
    using assms by (simp add: requireEmailForHumans_def)
  then have v: "runValidators isEmail [u] = Inr ()"
    by (simp add: runRules_validate)
  then have "\<forall>msg. fst (mutate isEmail (Create u) st) \<noteq> Inl (Error msg)"
    by (simp add: mutate_outcome)
  with r v show ?thesis by blast
qed

theorem requireEmailForHumans_noop_witness:
  "group (new_user ''service'' JNull ''svc-bot'') \<noteq> JStr USER_GROUP_GENERAL
   \<and> group (new_user ''service'' JNull ''svc-bot'') \<noteq> JStr USER_GROUP_ADMIN
   \<and> email (new_user ''service'' JNull ''svc-bot'') = JNull
   \<and> requireEmailForHumans sample_isEmail (new_user ''service'' JNull ''svc-bot'')
        = (Inr (), new_user ''service'' JNull ''svc-bot'')"
  using requireEmailForHumans_noop [of "new_user ''service'' JNull ''svc-bot''" sample_isEmail empty_store]
  by (simp add: new_user_def USER_GROUP_GENERAL_def USER_GROUP_ADMIN_def)

text \<open>
  C6. No coercion: for a candidate in group \<open>general\<close> or \<open>admin\<close>, an email that is
  not a primitive string is rejected whatever the address grammar is (Joi reports
  \<open>any.required\<close> or \<open>string.base\<close>), and the rule passes exactly when the email is a
  non-empty string that the grammar accepts as it stands.
\<close>

theorem email_not_coerced:
  assumes human: "group u = JStr USER_GROUP_GENERAL \<or> group u = JStr USER_GROUP_ADMIN"
  shows "((\<forall>s. email u \<noteq> JStr s) \<longrightarrow>
            (Joi_validate_email isEmail (email u) = Some any_required
               \<or> Joi_validate_email isEmail (email u) = Some string_base)
            \<and> requireEmailForHumans isEmail u
                 = (Inl (Error ''Email address required for human users''), u)
            \<and> mutate isEmail (Create u) st
                 = (Inl (Error ''Email address required for human users''), st))
       \<and> (fst (requireEmailForHumans isEmail u) = Inr ()
            \<longleftrightarrow> (\<exists>s. email u = JStr s \<and> s \<noteq> [] \<and> isEmail s))"
proof -
  have verdict: "fst (requireEmailForHumans isEmail u) = Inr ()
      \<longleftrightarrow> (\<exists>s. email u = JStr s \<and> s \<noteq> [] \<and> isEmail s)"
    using human
    by (simp add: requireEmailForHumans_fst USER_GROUP_GENERAL_def USER_GROUP_ADMIN_def
        Joi_error_iff [symmetric])
  have "Joi_validate_email isEmail (email u) = Some any_required
      \<or> Joi_validate_email isEmail (email u) = Some string_base"
    if "\<forall>s. email u \<noteq> JStr s"
    using that by (cases "email u") auto
  moreover have out: "fst (requireEmailForHumans isEmail u)
        = Inl (Error ''Email address required for human users'')"
    if "\<forall>s. email u \<noteq> JStr s"
    using that verdict by (auto simp: requireEmailForHumans_fst split: if_splits)
  moreover have "requireEmailForHumans isEmail u
        = (Inl (Error ''Email address required for human users''), u)"
    if "\<forall>s. email u \<noteq> JStr s"
    using out [OF that] requireEmailForHumans_snd [of isEmail u] by (simp add: prod_eq_iff)
  moreover have "mutate isEmail (Create u) st
        = (Inl (Error ''Email address required for human users''), st)"
    if "\<forall>s. email u \<noteq> JStr s"
    using out [OF that] by (simp add: mutate_outcome runRules_validate)
  ultimately show ?thesis using verdict by blast
qed

theorem email_not_coerced_witness:
  "(group (new_user ''admin'' (JObj [(''length'', Holds (JNum 13))]) ''Eve'') = JStr USER_GROUP_GENERAL
      \<or> group (new_user ''admin'' (JObj [(''length'', Holds (JNum 13))]) ''Eve'') = JStr USER_GROUP_ADMIN)
   \<and> (\<forall>s. email (new_user ''admin'' (JObj [(''length'', Holds (JNum 13))]) ''Eve'') \<noteq> JStr s)
   \<and> requireEmailForHumans (\<lambda>s. True) (new_user ''admin'' (JObj [(''length'', Holds (JNum 13))]) ''Eve'')
       = (Inl (Error ''Email address required for human users''),
          new_user ''admin'' (JObj [(''length'', Holds (JNum 13))]) ''Eve'')"
  using email_not_coerced
    [of "new_user ''admin'' (JObj [(''length'', Holds (JNum 13))]) ''Eve''" "\<lambda>s. True" empty_store]
  by (simp add: new_user_def USER_GROUP_ADMIN_def)

text \<open>
  C9. \<open>requireEmailForHumans\<close> depends on \<open>group\<close> and \<open>email\<close> only: two candidates
  that agree on both get the same outcome, whatever their other fields, and the call
  leaves each record as it found it.
\<close>

theorem requireEmailForHumans_reads_group_and_email:
  assumes "group u = group v" and "email u = email v"
  shows "fst (requireEmailForHumans isEmail u) = fst (requireEmailForHumans isEmail v)
       \<and> snd (requireEmailForHumans isEmail u) = u
       \<and> snd (requireEmailForHumans isEmail v) = v"
  using assms by (simp add: requireEmailForHumans_def Let_def)

theorem requireEmailForHumans_reads_group_and_email_witness:
  "group (new_user ''general'' JNull ''Bob'')
     = group ((new_user ''general'' JNull ''Alice'')
         \<lparr>ident := JNum 7, isActive := JBool False, avatarURL := JStr ''x.png'', extra := JObj []\<rparr>)
   \<and> email (new_user ''general'' JNull ''Bob'')
     = email ((new_user ''general'' JNull ''Alice'')
         \<lparr>ident := JNum 7, isActive := JBool False, avatarURL := JStr ''x.png'', extra := JObj []\<rparr>)
   \<and> fst (requireEmailForHumans sample_isEmail (new_user ''general'' JNull ''Bob''))
     = fst (requireEmailForHumans sample_isEmail ((new_user ''general'' JNull ''Alice'')
         \<lparr>ident := JNum 7, isActive := JBool False, avatarURL := JStr ''x.png'', extra := JObj []\<rparr>))"
  using requireEmailForHumans_reads_group_and_email
    [of "new_user ''general'' JNull ''Bob''"
        "(new_user ''general'' JNull ''Alice'')
         \<lparr>ident := JNum 7, isActive := JBool False, avatarURL := JStr ''x.png'', extra := JObj []\<rparr>"
        sample_isEmail]
  by (simp add: new_user_def)

text \<open>
  C7. The \<open>extra\<close> payload is not validated: replacing it by any value changes neither
  the outcome of \<open>requireEmailForHumans\<close>, the only validator declared, nor whether a
  create is accepted; an accepted create stores the value as given; and no index
  mentions the field.
\<close>

theorem extra_not_validated:
  "requireEmailForHumans isEmail (u\<lparr>extra := x\<rparr>)
     = (fst (requireEmailForHumans isEmail u), u\<lparr>extra := x\<rparr>)
   \<and> fst (mutate isEmail (Create (u\<lparr>extra := x\<rparr>)) st) = fst (mutate isEmail (Create u) st)
   \<and> (fst (mutate isEmail (Create (u\<lparr>extra := x\<rparr>)) st) = Inr () \<longrightarrow>
        extra (last (rows (snd (mutate isEmail (Create (u\<lparr>extra := x\<rparr>)) st)))) = x)
   \<and> map fst validate = [''requireEmailForHumans'']
   \<and> ''extra'' \<notin> set (concat (map index_fields indexes))"
proof -
  have v: "fst (requireEmailForHumans isEmail (u\<lparr>extra := x\<rparr>)) = fst (requireEmailForHumans isEmail u)"
    by (simp add: requireEmailForHumans_fst)
  have "requireEmailForHumans isEmail (u\<lparr>extra := x\<rparr>)
     = (fst (requireEmailForHumans isEmail u), u\<lparr>extra := x\<rparr>)"
    using v requireEmailForHumans_snd [of isEmail "u\<lparr>extra := x\<rparr>"] by (simp add: prod_eq_iff)
  moreover have "fst (mutate isEmail (Create (u\<lparr>extra := x\<rparr>)) st) = fst (mutate isEmail (Create u) st)"
    by (simp add: mutate_Create v constraints_ok_extra split: sum.splits)
  moreover have "fst (mutate isEmail (Create (u\<lparr>extra := x\<rparr>)) st) = Inr () \<longrightarrow>
        extra (last (rows (snd (mutate isEmail (Create (u\<lparr>extra := x\<rparr>)) st)))) = x"
    by (simp add: mutate_Create rows_runHooks insert_row_def split: sum.splits)
  moreover have "map fst validate = [''requireEmailForHumans'']"
    by (simp add: validate_def)
  moreover have "''extra'' \<notin> set (concat (map index_fields indexes))"
    by (simp add: indexes_def)
  ultimately show ?thesis by blast
qed

theorem extra_not_validated_witness:
  "fst (mutate sample_isEmail
          (Create ((new_user ''moderator'' JNull ''scorer'')\<lparr>extra := JNum 42\<rparr>)) empty_store)
     = Inr ()
   \<and> extra (last (rows (snd (mutate sample_isEmail
          (Create ((new_user ''moderator'' JNull ''scorer'')\<lparr>extra := JNum 42\<rparr>)) empty_store))))
     = JNum 42"
proof -
  have h: "fst (mutate sample_isEmail
          (Create ((new_user ''moderator'' JNull ''scorer'')\<lparr>extra := JNum 42\<rparr>)) empty_store)
     = Inr ()"
    by (simp add: mutate_Create requireEmailForHumans_fst new_user_def empty_store_def
        constraints_ok_pairs)
  show ?thesis
    using h extra_not_validated [where isEmail = sample_isEmail
        and u = "new_user ''moderator'' JNull ''scorer''" and x = "JNum 42" and st = empty_store]
    by simp
qed

subsection \<open>The shape predicate\<close>

text \<open>
  C3, as amended. \<open>isUser\<close> never calls \<open>get\<close> and does not ask whether it can be
  called: it returns \<open>true\<close> exactly when the value is truthy (so neither \<open>null\<close> nor
  \<open>undefined\<close>), its \<open>get\<close> property reads as a truthy value and its \<open>group\<close>
  property, read directly, is truthy. In particular it returns \<open>true\<close> on
  \<open>{ group: "admin", get: fn }\<close>. On a truthy value whose \<open>get\<close> is truthy, callable or
  not, it returns the boolean that says whether \<open>group\<close> is truthy. On \<open>null\<close>, on
  \<open>{}\<close> and on any value whose \<open>get\<close> is missing or falsy it returns a falsy result;
  which falsy value that is, is left open here.
\<close>

theorem isUser_true_exactly_when:
  "(isUser v = Inr (JBool True) \<longleftrightarrow>
      truthy v
      \<and> (\<exists>g. get_prop v ''get'' = Inr g \<and> truthy g)
      \<and> (\<exists>grp. get_prop v ''group'' = Inr grp \<and> truthy grp))
   \<and> (isUser v = Inr (JBool True) \<longrightarrow> v \<noteq> JNull \<and> v \<noteq> JUndefined)
   \<and> isUser (JObj [(''group'', Holds (JStr ''admin'')), (''get'', Holds (JFun fn))])
        = Inr (JBool True)
   \<and> (truthy v \<and> get_prop v ''get'' = Inr g \<and> truthy g \<and> get_prop v ''group'' = Inr grp
        \<longrightarrow> isUser v = Inr (JBool (truthy grp)))
   \<and> (\<not> truthy v \<or> (get_prop v ''get'' = Inr g \<and> \<not> truthy g)
        \<longrightarrow> (\<exists>r. isUser v = Inr r \<and> \<not> truthy r))
   \<and> (\<exists>r. isUser JNull = Inr r \<and> \<not> truthy r)
   \<and> (\<exists>r. isUser (JObj []) = Inr r \<and> \<not> truthy r)"
proof -
  have iff: "isUser v = Inr (JBool True) \<longleftrightarrow>
      truthy v
      \<and> (\<exists>g. get_prop v ''get'' = Inr g \<and> truthy g)
      \<and> (\<exists>grp. get_prop v ''group'' = Inr grp \<and> truthy grp)"
    by (rule isUser_true_iff)
  have nonnull: "isUser v = Inr (JBool True) \<longrightarrow> v \<noteq> JNull \<and> v \<noteq> JUndefined"
    unfolding iff by auto
  have admin: "isUser (JObj [(''group'', Holds (JStr ''admin'')), (''get'', Holds (JFun fn))])
        = Inr (JBool True)"
    by (simp add: isUser_def)
  have bool: "truthy v \<and> get_prop v ''get'' = Inr g \<and> truthy g \<and> get_prop v ''group'' = Inr grp
        \<longrightarrow> isUser v = Inr (JBool (truthy grp))"
    by (simp add: isUser_def)
  have falsy: "\<not> truthy v \<or> (get_prop v ''get'' = Inr g \<and> \<not> truthy g)
        \<longrightarrow> (\<exists>r. isUser v = Inr r \<and> \<not> truthy r)"
    by (cases "truthy v") (auto simp: isUser_def)
  have null: "\<exists>r. isUser JNull = Inr r \<and> \<not> truthy r"
    by (simp add: isUser_def)
  have empty: "\<exists>r. isUser (JObj []) = Inr r \<and> \<not> truthy r"
    by (simp add: isUser_def)
  from iff nonnull admin bool falsy null empty show ?thesis
    by (intro conjI)
qed

theorem isUser_true_exactly_when_witness:
  "isUser (JObj [(''group'', Holds (JStr ''admin'')), (''get'', Holds (JFun []))]) = Inr (JBool True)
   \<and> truthy (JObj [(''get'', Holds (JFun []))])
   \<and> get_prop (JObj [(''get'', Holds (JFun []))]) ''get'' = Inr (JFun [])
   \<and> get_prop (JObj [(''get'', Holds (JFun []))]) ''group'' = Inr JUndefined
   \<and> isUser (JObj [(''get'', Holds (JFun []))]) = Inr (JBool False)
   \<and> get_prop (JStr ''abc'') ''get'' = Inr JUndefined
   \<and> (\<exists>r. isUser (JStr ''abc'') = Inr r \<and> \<not> truthy r)"
  using isUser_true_exactly_when
      [of "JObj [(''group'', Holds (JStr ''admin'')), (''get'', Holds (JFun []))]" "[]" JUndefined JUndefined]
    isUser_true_exactly_when [of "JObj [(''get'', Holds (JFun []))]" "[]" "JFun []" JUndefined]
    isUser_true_exactly_when [of "JStr ''abc''" "[]" JUndefined JUndefined]
  by simp

text \<open>
  As stated, C3 lets \<open>isUser\<close> return \<open>true\<close> only on a value that exposes an
  attribute-read capability which yields a truthy \<open>group\<close>, and has it return \<open>false\<close> on
  any value lacking such a capability. On \<open>{ get: 1, group: "admin" }\<close> the \<open>get\<close>
  property is the number 1, nothing that can be called or can yield an attribute, and
  \<open>isUser\<close> returns \<open>true\<close>.
\<close>

theorem isUser_uncallable_get_counterexample:
  "isUser (JObj [(''get'', Holds (JNum 1)), (''group'', Holds (JStr ''admin''))]) = Inr (JBool True)
   \<and> get_prop (JObj [(''get'', Holds (JNum 1)), (''group'', Holds (JStr ''admin''))]) ''get''
        = Inr (JNum 1)"
  by (simp add: isUser_def)

text \<open>
  C8, as amended. \<open>isUser\<close> returns without throwing on \<open>null\<close>, on \<open>undefined\<close>, on
  every other primitive, and on every object whose \<open>get\<close> and \<open>group\<close> properties can be
  read without a throw: the conjunction stops before a property of a null-like value is
  read. It throws exactly when the value is truthy and the read of \<open>get\<close> throws, or
  \<open>get\<close> is truthy and the read of \<open>group\<close> throws. Whenever it returns, the result
  is \<open>true\<close> or a falsy value.
\<close>

theorem isUser_returns:
  "((\<forall>ps. v \<noteq> JObj ps \<and> v \<noteq> JFun ps) \<longrightarrow> (\<exists>r. isUser v = Inr r))
   \<and> ((truthy v \<longrightarrow> (\<exists>g. get_prop v ''get'' = Inr g) \<and> (\<exists>grp. get_prop v ''group'' = Inr grp))
        \<longrightarrow> (\<exists>r. isUser v = Inr r))
   \<and> (isUser v = Inl e \<longleftrightarrow>
        truthy v \<and> (get_prop v ''get'' = Inl e
          \<or> (\<exists>g. get_prop v ''get'' = Inr g \<and> truthy g \<and> get_prop v ''group'' = Inl e)))
   \<and> (isUser v = Inr r \<longrightarrow> r = JBool True \<or> \<not> truthy r)
   \<and> isUser JNull = Inr JNull
   \<and> isUser JUndefined = Inr JUndefined"
proof -
  have reads: "\<exists>r. isUser v = Inr r"
    if "truthy v \<longrightarrow> (\<exists>g. get_prop v ''get'' = Inr g) \<and> (\<exists>grp. get_prop v ''group'' = Inr grp)"
    using that by (cases "truthy v") (auto simp: isUser_def)
  have prim: "\<exists>r. isUser v = Inr r" if "\<forall>ps. v \<noteq> JObj ps \<and> v \<noteq> JFun ps"
    using that get_prop_primitive [OF that] reads by blast
  have "isUser JNull = Inr JNull" and "isUser JUndefined = Inr JUndefined"
    by (simp_all add: isUser_def)
  with reads prim isUser_throws_iff [of v e] isUser_result [of v r] show ?thesis
    by blast
qed

theorem isUser_returns_witness:
  "(\<forall>ps. JNull \<noteq> JObj ps \<and> JNull \<noteq> JFun ps) \<and> (\<exists>r. isUser JNull = Inr r)
   \<and> (\<forall>ps. JStr ''abc'' \<noteq> JObj ps \<and> JStr ''abc'' \<noteq> JFun ps) \<and> (\<exists>r. isUser (JStr ''abc'') = Inr r)"
  using isUser_returns [of JNull "Error []" JNull] isUser_returns [of "JStr ''abc''" "Error []" JNull]
  by simp

text \<open>
  As stated, C8 holds for every input; on \<open>{ get get() { throw new Error("boom") } }\<close>
  the read \<open>instance.get\<close> runs the getter and \<open>isUser\<close> throws.
\<close>

theorem isUser_getter_counterexample:
  "isUser (JObj [(''get'', Raises (Error ''boom''))]) = Inl (Error ''boom'')"
  by (simp add: isUser_def)

subsection \<open>Hooks and indexes\<close>

text \<open>
  C4. A successful mutation (create, update, destroy, bulk create, bulk update, bulk
  destroy) applies its write and then invokes \<open>updateHappened\<close> once: the journal grows
  by \<open>Mutated\<close> followed by one \<open>Notified\<close>. A failed mutation leaves the store, and
  with it the journal, unchanged. The \<open>hooks\<close> option registers \<open>updateHappened\<close>, and
  nothing else, for the after-event of each mutation, and registers no other event.
\<close>

theorem updateHappened_once_after_success:
  "(mutate isEmail m st = (Inr (), st') \<longrightarrow>
      rows st' = rows (perform m st)
      \<and> journal st' = journal st @ [Mutated, Notified])
   \<and> (mutate isEmail m st = (Inl e, st') \<longrightarrow> st' = st)
   \<and> map snd (filter (\<lambda>(n, h). n = afterHook m) hooks) = [updateHappened]
   \<and> map fst hooks = [''afterCreate'', ''afterDestroy'', ''afterUpdate'',
                      ''afterBulkCreate'', ''afterBulkUpdate'', ''afterBulkDestroy'']"
proof -
  have "mutate isEmail m st = (Inr (), st') \<longrightarrow>
      rows st' = rows (perform m st) \<and> journal st' = journal st @ [Mutated, Notified]"
    by (auto simp: mutate_outcome rows_runHooks journal_runHooks journal_perform
        split: sum.splits if_splits)
  moreover have "mutate isEmail m st = (Inl e, st') \<longrightarrow> st' = st"
    by (auto simp: mutate_outcome split: sum.splits if_splits)
  moreover have "map snd (filter (\<lambda>(n, h). n = afterHook m) hooks) = [updateHappened]"
    by (cases m) (simp_all add: hooks_def)
  moreover have "map fst hooks = [''afterCreate'', ''afterDestroy'', ''afterUpdate'',
                      ''afterBulkCreate'', ''afterBulkUpdate'', ''afterBulkDestroy'']"
    by (simp add: hooks_def)
  ultimately show ?thesis by blast
qed

theorem updateHappened_once_after_success_witness:
  "mutate sample_isEmail (Create (new_user ''general'' (JStr ''a@example.com'') ''Alice'')) empty_store
     = (Inr (),
        \<lparr>rows = [(new_user ''general'' (JStr ''a@example.com'') ''Alice'')\<lparr>ident := JNum 1\<rparr>],
         autoIncrement = 2, journal = [Mutated, Notified]\<rparr>)
   \<and> mutate sample_isEmail (Create (new_user ''general'' JNull ''Bob'')) empty_store
     = (Inl (Error ''Email address required for human users''), empty_store)"
proof -
  have ok: "mutate sample_isEmail (Create (new_user ''general'' (JStr ''a@example.com'') ''Alice'')) empty_store
     = (Inr (),
        \<lparr>rows = [(new_user ''general'' (JStr ''a@example.com'') ''Alice'')\<lparr>ident := JNum 1\<rparr>],
         autoIncrement = 2, journal = [Mutated, Notified]\<rparr>)"
    by (simp add: mutate_Create requireEmailForHumans_fst new_user_def empty_store_def
        constraints_ok_pairs sample_isEmail_def runHooks_def hooks_def insert_row_def)
  have bad: "mutate sample_isEmail (Create (new_user ''general'' JNull ''Bob'')) empty_store
     = (Inl (Error ''Email address required for human users''), empty_store)"
    by (simp add: mutate_Create requireEmailForHumans_fst new_user_def)
  show ?thesis
    using ok bad
      updateHappened_once_after_success [where isEmail = sample_isEmail
        and m = "Create (new_user ''general'' (JStr ''a@example.com'') ''Alice'')"
        and st = empty_store and st' =
        "\<lparr>rows = [(new_user ''general'' (JStr ''a@example.com'') ''Alice'')\<lparr>ident := JNum 1\<rparr>],
         autoIncrement = 2, journal = [Mutated, Notified]\<rparr>"]
    by simp
qed

text \<open>
  C5. In every store reached from the empty one by any sequence of mutations, two rows
  at different positions differ in their (\<open>email\<close>, \<open>group\<close>) pair; a mutation whose
  result would hold the same pair twice is rejected and leaves the store unchanged, in
  particular a create of a record whose pair a stored row already has.
\<close>

theorem email_group_pair_unique:
  "(\<forall>i j. i < j \<and> j < length (rows (run isEmail ms empty_store)) \<longrightarrow>
      (email (rows (run isEmail ms empty_store) ! i), group (rows (run isEmail ms empty_store) ! i))
        \<noteq> (email (rows (run isEmail ms empty_store) ! j), group (rows (run isEmail ms empty_store) ! j)))
   \<and> (\<not> distinct (map (\<lambda>r. (email r, group r)) (rows (perform m st))) \<longrightarrow>
        (\<exists>e. mutate isEmail m st = (Inl e, st)))
   \<and> (r \<in> set (rows st) \<and> email r = email u \<and> group r = group u \<longrightarrow>
        (\<exists>e. mutate isEmail (Create u) st = (Inl e, st)))"
proof (intro conjI allI impI)
  fix i j
  assume "i < j \<and> j < length (rows (run isEmail ms empty_store))"
  then have "i < j" and "j < length (rows (run isEmail ms empty_store))"
    by simp_all
  then show "(email (rows (run isEmail ms empty_store) ! i), group (rows (run isEmail ms empty_store) ! i))
        \<noteq> (email (rows (run isEmail ms empty_store) ! j), group (rows (run isEmail ms empty_store) ! j))"
    by (rule distinct_nth_neq [OF run_pairs_distinct])
next
  assume "\<not> distinct (map (\<lambda>r. (email r, group r)) (rows (perform m st)))"
  then show "\<exists>e. mutate isEmail m st = (Inl e, st)"
    by (rule conflicting_write_rejected)
next
  assume "r \<in> set (rows st) \<and> email r = email u \<and> group r = group u"
  then have "\<not> distinct (map (\<lambda>r. (email r, group r)) (rows (perform (Create u) st)))"
    using conflicting_create [of r st u] by simp
  then show "\<exists>e. mutate isEmail (Create u) st = (Inl e, st)"
    by (rule conflicting_write_rejected)
qed

theorem email_group_pair_unique_witness:
  "(0::nat) < 1
   \<and> 1 < length (rows (run sample_isEmail
        [Create (new_user ''general'' (JStr ''a@example.com'') ''Alice''),
         Create (new_user ''admin'' (JStr ''a@example.com'') ''Alice''),
         Create (new_user ''admin'' (JStr ''a@example.com'') ''Mallory'')] empty_store))
   \<and> (email (rows (run sample_isEmail
        [Create (new_user ''general'' (JStr ''a@example.com'') ''Alice''),
         Create (new_user ''admin'' (JStr ''a@example.com'') ''Alice''),
         Create (new_user ''admin'' (JStr ''a@example.com'') ''Mallory'')] empty_store) ! 0),
      group (rows (run sample_isEmail
        [Create (new_user ''general'' (JStr ''a@example.com'') ''Alice''),
         Create (new_user ''admin'' (JStr ''a@example.com'') ''Alice''),
         Create (new_user ''admin'' (JStr ''a@example.com'') ''Mallory'')] empty_store) ! 0))
     \<noteq> (email (rows (run sample_isEmail
        [Create (new_user ''general'' (JStr ''a@example.com'') ''Alice''),
         Create (new_user ''admin'' (JStr ''a@example.com'') ''Alice''),
         Create (new_user ''admin'' (JStr ''a@example.com'') ''Mallory'')] empty_store) ! 1),
      group (rows (run sample_isEmail
        [Create (new_user ''general'' (JStr ''a@example.com'') ''Alice''),
         Create (new_user ''admin'' (JStr ''a@example.com'') ''Alice''),
         Create (new_user ''admin'' (JStr ''a@example.com'') ''Mallory'')] empty_store) ! 1))"
proof -
  have len: "length (rows (run sample_isEmail
        [Create (new_user ''general'' (JStr ''a@example.com'') ''Alice''),
         Create (new_user ''admin'' (JStr ''a@example.com'') ''Alice''),
         Create (new_user ''admin'' (JStr ''a@example.com'') ''Mallory'')] empty_store)) = 2"
    by code_simp
  show ?thesis
    using len email_group_pair_unique [where isEmail = sample_isEmail and ms =
        "[Create (new_user ''general'' (JStr ''a@example.com'') ''Alice''),
         Create (new_user ''admin'' (JStr ''a@example.com'') ''Alice''),
         Create (new_user ''admin'' (JStr ''a@example.com'') ''Mallory'')]"]
    by simp
qed

text \<open>
  C10. Email alone is not unique: two records that pass validation, share their email
  and differ in group are both stored when created one after the other in the empty
  store. Of the four declared indexes only the one on (\<open>email\<close>, \<open>group\<close>) is unique;
  \<open>users_email\<close>, on \<open>email\<close>, is not.
\<close>

theorem email_alone_not_unique:
  "(runValidators isEmail [u] = Inr () \<and> runValidators isEmail [v] = Inr ()
      \<and> email u = email v \<and> group u \<noteq> group v \<longrightarrow>
      map (\<lambda>r. (email r, group r)) (rows (run isEmail [Create u, Create v] empty_store))
        = [(email u, group u), (email v, group v)])
   \<and> map (\<lambda>ix. (index_name ix, index_fields ix, unique ix)) indexes
        = [(Some ''users_email'', [''email''], False),
           (Some ''group_index'', [''group''], False),
           (Some ''isActive_index'', [''isActive''], False),
           (None, [''email'', ''group''], True)]"
proof (intro conjI impI)
  assume a: "runValidators isEmail [u] = Inr () \<and> runValidators isEmail [v] = Inr ()
      \<and> email u = email v \<and> group u \<noteq> group v"
  then have vu: "fst (requireEmailForHumans isEmail u) = Inr ()"
    and vv: "fst (requireEmailForHumans isEmail v) = Inr ()"
    by (simp_all add: runRules_validate split: sum.splits)
  from a have ne: "group u \<noteq> group v" by simp
  show "map (\<lambda>r. (email r, group r)) (rows (run isEmail [Create u, Create v] empty_store))
        = [(email u, group u), (email v, group v)]"
  proof -
    let ?s1 = "\<lparr>rows = [u\<lparr>ident := JNum 1\<rparr>], autoIncrement = 2, journal = [Mutated, Notified]\<rparr>"
    have s1: "snd (mutate isEmail (Create u) empty_store) = ?s1"
      by (simp add: create_on_empty [OF vu])
    have s2: "rows (snd (mutate isEmail (Create v) ?s1))
        = [u\<lparr>ident := JNum 1\<rparr>, v\<lparr>ident := JNum 2\<rparr>]"
      using ne by (simp add: mutate_Create vv constraints_ok_pairs rows_runHooks insert_row_def)
    show ?thesis
      by (simp add: run_def s1 s2)
  qed
next
  show "map (\<lambda>ix. (index_name ix, index_fields ix, unique ix)) indexes
        = [(Some ''users_email'', [''email''], False),
           (Some ''group_index'', [''group''], False),
           (Some ''isActive_index'', [''isActive''], False),
           (None, [''email'', ''group''], True)]"
    by (simp add: indexes_def)
qed

theorem email_alone_not_unique_witness:
  "runValidators sample_isEmail [new_user ''general'' (JStr ''a@example.com'') ''Alice''] = Inr ()
   \<and> runValidators sample_isEmail [new_user ''admin'' (JStr ''a@example.com'') ''Alice''] = Inr ()
   \<and> email (new_user ''general'' (JStr ''a@example.com'') ''Alice'')
       = email (new_user ''admin'' (JStr ''a@example.com'') ''Alice'')
   \<and> group (new_user ''general'' (JStr ''a@example.com'') ''Alice'')
       \<noteq> group (new_user ''admin'' (JStr ''a@example.com'') ''Alice'')
   \<and> map (\<lambda>r. (email r, group r)) (rows (run sample_isEmail
        [Create (new_user ''general'' (JStr ''a@example.com'') ''Alice''),
         Create (new_user ''admin'' (JStr ''a@example.com'') ''Alice'')] empty_store))
       = [(JStr ''a@example.com'', JStr ''general''), (JStr ''a@example.com'', JStr ''admin'')]"
proof -
  have h: "runValidators sample_isEmail [new_user ''general'' (JStr ''a@example.com'') ''Alice''] = Inr ()
    \<and> runValidators sample_isEmail [new_user ''admin'' (JStr ''a@example.com'') ''Alice''] = Inr ()"
    by (simp add: runRules_validate requireEmailForHumans_fst new_user_def sample_isEmail_def)
  show ?thesis
    using h email_alone_not_unique [where isEmail = sample_isEmail
        and u = "new_user ''general'' (JStr ''a@example.com'') ''Alice''"
        and v = "new_user ''admin'' (JStr ''a@example.com'') ''Alice''"]
    by (simp add: new_user_def)
qed

end
